theory Spec2Isabelle
  imports Main
begin

section \<open>Ledger rows\<close>

text \<open>
  The booking and payment handlers of the event router
  (\<^verbatim>\<open>src/server/api/routers/wordpress.ts\<close>, second module: \<^verbatim>\<open>eventPaymentRouter\<close>) and
  the capacity read model of the public router (\<^verbatim>\<open>publicRouter\<close>) are embedded as pure
  functions over an explicit store.  Dates are JavaScript \<^verbatim>\<open>Date\<close> values, that is
  integer milliseconds since the epoch; amounts and prices are the integers the
  database holds.  Strings are lists of characters, one character per code unit
  (all literals of the handlers are Latin-1).
\<close>

text \<open>
  Modelled from the spec: the database schema (the declaration of the two status
  enumerations and of the tables) is not among the sources.  The enumerations have the
  members the data model lists (payment: CREATED, PAID, DECLINED, ERROR, CANCELLED;
  refund: CREATED, PAID, DECLINED, ERROR); each table has the fields the handlers
  read and write.  Row identifiers are numbers, given out in the order of creation.
\<close>

datatype SwishPaymentStatus = CREATED | PAID | DECLINED | ERROR | CANCELLED

datatype SwishRefundStatus = REFUND_CREATED | REFUND_PAID | REFUND_DECLINED | REFUND_ERROR

record VastraEvent =
  ev_id :: string
  ev_name :: string
  ev_date :: int
  defaultPrice :: int
  memberPrice :: int
  youthPrice :: int
  youthMemberPrice :: int

record Bus =
  bus_id :: string
  bus_eventId :: string
  seats :: int

text \<open>\<^verbatim>\<open>participantSchema\<close>: what a signup request says about one traveller.\<close>

record ParticipantInput =
  in_name :: string
  in_email :: string
  in_phone :: string
  in_consent :: bool
  in_note :: "string option"
  in_busId :: string
  in_member :: bool
  in_youth :: bool

record Participant =
  p_id :: nat
  p_name :: string
  p_email :: string
  p_phone :: string
  p_note :: "string option"
  p_busId :: string
  p_member :: bool
  p_youth :: bool
  p_payAmount :: int
  p_eventId :: string
  p_cancellationToken :: string

text \<open>
  A payment row.  The many-to-many relation to participants is kept on the payment
  side as the list of connected participant ids.
\<close>

record SwishPayment =
  pay_id :: nat
  pay_paymentId :: string
  pay_payerAlias :: string
  pay_payeeAlias :: string
  pay_amount :: int
  pay_message :: string
  pay_paymentReference :: "string option"
  pay_paymentRequestUrl :: string
  pay_createdAt :: int
  pay_updatedAt :: int
  pay_status :: SwishPaymentStatus
  pay_errorCode :: "string option"
  pay_errorMessage :: "string option"
  pay_participants :: "nat list"

record SwishRefund =
  ref_id :: nat
  ref_refundId :: string
  ref_paymentId :: nat
  ref_paymentReference :: "string option"
  ref_payerAlias :: string
  ref_payeeAlias :: string
  ref_amount :: int
  ref_message :: string
  ref_status :: SwishRefundStatus
  ref_participantId :: nat
  ref_createdAt :: int
  ref_updatedAt :: int

text \<open>
  The store the handlers read and write: the five tables, plus the two outward
  effects the properties below speak about, namely the confirmation mails handed to the mail
  service (in the order of the attempts) and the fixed lines written with
  \<^verbatim>\<open>console.error\<close>.
\<close>

record world =
  events :: "VastraEvent list"
  buses :: "Bus list"
  participants :: "Participant list"
  swishPayments :: "SwishPayment list"
  swishRefunds :: "SwishRefund list"
  sentConfirmations :: "Participant list"
  errorLog :: "string list"

section \<open>Errors and collaborators\<close>

datatype trpc_code = BAD_REQUEST | NOT_FOUND | INTERNAL_SERVER_ERROR

datatype TRPCError = TRPCError trpc_code "string option"

text \<open>
  The payload of a payment request (\<^verbatim>\<open>createPaymentIntentPayload\<close>'s result) and the refund
  payload built in \<^verbatim>\<open>cancelBooking\<close>.
\<close>

record PaymentIntent =
  pi_message :: string
  pi_payerAlias :: string
  pi_payeeAlias :: string
  pi_amount :: int
  pi_callbackEndPoint :: string

record RefundData =
  rd_originalPaymentReference :: string
  rd_callbackUrl :: string
  rd_payerAlias :: string
  rd_amount :: int
  rd_currency :: string
  rd_message :: string

text \<open>
  What the handlers call and do not define: the payment gateway (a call returns the
  \<^verbatim>\<open>location\<close> header, or throws: \<open>None\<close>), the mail service (a send may reject), the
  storage engine (a \<^verbatim>\<open>participant.create\<close> may fail, depending on the table it meets and
  on the row; it also generates the cancellation token), the environment
  (\<^verbatim>\<open>env.API_URL\<close>, the payee alias of the payload helper) and the time zone of the
  server.  The time zone is the local time zone adjustment of the language standard:
  \<open>env_LocalTZA c t True\<close> is the offset from UTC, in milliseconds, in force at the
  instant \<open>t\<close>, and \<open>env_LocalTZA c t False\<close> the offset in force at the local time \<open>t\<close>.
\<close>

record collaborators =
  createPaymentRequest :: "PaymentIntent \<Rightarrow> string option"
  createRefundRequest :: "RefundData \<Rightarrow> string option"
  sendEmailFails :: "Participant \<Rightarrow> bool"
  participantCreateFails :: "Participant list \<Rightarrow> ParticipantInput \<Rightarrow> bool"
  generateToken :: "nat \<Rightarrow> string"
  env_API_URL :: string
  env_payeeAlias :: string
  env_LocalTZA :: "int \<Rightarrow> bool \<Rightarrow> int"

section \<open>Dates and strings\<close>

text \<open>
  Local time, as a \<^verbatim>\<open>Date\<close> object computes it: \<^verbatim>\<open>LocalTime(t) = t + LocalTZA(t, true)\<close> and
  \<^verbatim>\<open>UTC(t) = t - LocalTZA(t, false)\<close>.
\<close>

definition LocalTime :: "(int \<Rightarrow> bool \<Rightarrow> int) \<Rightarrow> int \<Rightarrow> int" where
  "LocalTime tz t = t + tz t True"

definition UTC :: "(int \<Rightarrow> bool \<Rightarrow> int) \<Rightarrow> int \<Rightarrow> int" where
  "UTC tz t = t - tz t False"

text \<open>
  The date library's functions, on millisecond timestamps.  \<^verbatim>\<open>subDays(date, n)\<close> is
  \<^verbatim>\<open>addDays(date, -n)\<close>, which returns the date itself for no days and otherwise calls
  \<^verbatim>\<open>date.setDate(date.getDate() - n)\<close>: the same local time of day, \<open>n\<close> calendar days
  earlier.  In a zone whose offset does not change in between that is \<open>n\<close> times 24
  hours earlier; across a daylight-saving change it is an hour more or less.
  \<^verbatim>\<open>subHours\<close> subtracts whole hours of 3600000 milliseconds.  \<^verbatim>\<open>isWithinInterval\<close>
  includes both ends (its start is never after its end here, the offsets of a zone
  differing by far less than two days); \<^verbatim>\<open>isBefore\<close> is strict.
\<close>

definition subDays :: "(int \<Rightarrow> bool \<Rightarrow> int) \<Rightarrow> int \<Rightarrow> int \<Rightarrow> int" where
  "subDays tz d n = (if n = 0 then d else UTC tz (LocalTime tz d - n * 86400000))"

definition subHours :: "int \<Rightarrow> int \<Rightarrow> int" where
  "subHours d n = d - n * 3600000"

definition isWithinInterval :: "int \<Rightarrow> int \<Rightarrow> int \<Rightarrow> bool" where
  "isWithinInterval t start end' = (start \<le> t \<and> t \<le> end')"

definition isBefore :: "int \<Rightarrow> int \<Rightarrow> bool" where
  "isBefore d dateToCompare = (d < dateToCompare)"

text \<open>\<^verbatim>\<open>s.replaceAll("/", "-")\<close>\<close>

definition replaceAll_slash :: "string \<Rightarrow> string" where
  "replaceAll_slash s = map (\<lambda>c. if c = CHR ''/'' then CHR ''-'' else c) s"

text \<open>\<^verbatim>\<open>url.split("/").pop()\<close>: what follows the last slash, the whole string when there is none.\<close>

definition last_segment :: "string \<Rightarrow> string" where
  "last_segment url = rev (takeWhile (\<lambda>c. c \<noteq> CHR ''/'') (rev url))"

text \<open>\<^verbatim>\<open>s.split(" ")[0]\<close>: what precedes the first space.\<close>

definition first_word :: "string \<Rightarrow> string" where
  "first_word s = takeWhile (\<lambda>c. c \<noteq> CHR '' '') s"

text \<open>A number inside a template string: its decimal digits.\<close>

fun string_of_nat :: "nat \<Rightarrow> string" where
  "string_of_nat n =
     (if n < 10 then [''0123456789'' ! n]
      else string_of_nat (n div 10) @ [''0123456789'' ! (n mod 10)])"

declare string_of_nat.simps [simp del]





section \<open>Cost of a signup\<close>

definition getParticipantCost :: "ParticipantInput \<Rightarrow> VastraEvent \<Rightarrow> int" where
  "getParticipantCost participant event =
     (if in_youth participant \<and> in_member participant then youthMemberPrice event
      else if in_youth participant \<and> \<not> in_member participant then youthPrice event
      else if \<not> in_youth participant \<and> in_member participant then memberPrice event
      else defaultPrice event)"

definition calculateCost :: "ParticipantInput list \<Rightarrow> VastraEvent \<Rightarrow> int" where
  "calculateCost ps event =
     foldl (\<lambda>acc participant. acc + getParticipantCost participant event) 0 ps"

section \<open>Relations between the tables\<close>

text \<open>
  \<^verbatim>\<open>include: { participants: true }\<close> on a payment, and \<^verbatim>\<open>include: { swishPayments: true }\<close>,
  \<^verbatim>\<open>{ swishRefunds: true }\<close>, \<^verbatim>\<open>{ event: true }\<close> on a participant, \<^verbatim>\<open>passengers\<close> on a bus.
\<close>

definition includeParticipants :: "world \<Rightarrow> SwishPayment \<Rightarrow> Participant list" where
  "includeParticipants w pay =
     filter (\<lambda>p. p_id p \<in> set (pay_participants pay)) (participants w)"

definition includePayments :: "world \<Rightarrow> Participant \<Rightarrow> SwishPayment list" where
  "includePayments w p =
     filter (\<lambda>pay. p_id p \<in> set (pay_participants pay)) (swishPayments w)"

definition includeRefunds :: "world \<Rightarrow> Participant \<Rightarrow> SwishRefund list" where
  "includeRefunds w p = filter (\<lambda>r. ref_participantId r = p_id p) (swishRefunds w)"

definition includeEvent :: "world \<Rightarrow> Participant \<Rightarrow> VastraEvent option" where
  "includeEvent w p = find (\<lambda>e. ev_id e = p_eventId p) (events w)"

definition passengers :: "world \<Rightarrow> Bus \<Rightarrow> Participant list" where
  "passengers w b = filter (\<lambda>p. p_busId p = bus_id b) (participants w)"

section \<open>requestSwishPayment\<close>

record SignupInput =
  su_participants :: "ParticipantInput list"
  su_eventId :: string

text \<open>
  Modelled from the spec: \<^verbatim>\<open>createPaymentIntentPayload\<close> (\<^verbatim>\<open>~/utils/payment\<close>) is not among the
  sources.  Its result carries what it was given (payer alias, amount, message,
  callback endpoint) and the payee alias of the environment, which the handler reads
  back from it.
\<close>

definition createPaymentIntentPayload ::
  "collaborators \<Rightarrow> string \<Rightarrow> string \<Rightarrow> int \<Rightarrow> string \<Rightarrow> PaymentIntent" where
  "createPaymentIntentPayload c message payerAlias amount callbackEndPoint =
     \<lparr>pi_message = message, pi_payerAlias = payerAlias, pi_payeeAlias = env_payeeAlias c,
      pi_amount = amount, pi_callbackEndPoint = callbackEndPoint\<rparr>"

text \<open>The payer-facing message: the template, cut to 50 characters, slashes replaced.\<close>

definition signupMessage :: "VastraEvent \<Rightarrow> nat \<Rightarrow> string" where
  "signupMessage event n =
     replaceAll_slash
       (take 50 (ev_name event @ ''. '' @ string_of_nat n @ '' resen'' @ [CHR 0xE4] @ ''rer''))"

text \<open>
  One \<^verbatim>\<open>participant.create\<close>: the row gets the next id of the table, the data of the
  request without the consent flag, its own cost and the event's id.
\<close>

definition newParticipant ::
  "collaborators \<Rightarrow> nat \<Rightarrow> ParticipantInput \<Rightarrow> VastraEvent \<Rightarrow> Participant" where
  "newParticipant c i participant event =
     \<lparr>p_id = i, p_name = in_name participant, p_email = in_email participant,
      p_phone = in_phone participant, p_note = in_note participant,
      p_busId = in_busId participant, p_member = in_member participant,
      p_youth = in_youth participant,
      p_payAmount = getParticipantCost participant event,
      p_eventId = ev_id event, p_cancellationToken = generateToken c i\<rparr>"

text \<open>
  The creates of one \<^verbatim>\<open>$transaction([...])\<close>, run in order on the transaction's own view
  of the table.  The result is the table and the created rows, or \<open>None\<close> as soon as one
  create fails.
\<close>

fun createParticipants ::
  "collaborators \<Rightarrow> VastraEvent \<Rightarrow> Participant list \<Rightarrow> ParticipantInput list
     \<Rightarrow> (Participant list \<times> Participant list) option" where
  "createParticipants c event tbl [] = Some (tbl, [])"
| "createParticipants c event tbl (participant # rest) =
     (if participantCreateFails c tbl participant then None
      else
        let row = newParticipant c (length tbl) participant event in
        (case createParticipants c event (tbl @ [row]) rest of
           None \<Rightarrow> None
         | Some (tbl', rows) \<Rightarrow> Some (tbl', row # rows)))"

text \<open>
  The transaction commits the view when every create succeeded, and otherwise throws
  with the store as it was.
\<close>

definition transaction ::
  "collaborators \<Rightarrow> VastraEvent \<Rightarrow> ParticipantInput list \<Rightarrow> world
     \<Rightarrow> (world \<times> Participant list) option" where
  "transaction c event ps w =
     (case createParticipants c event (participants w) ps of
        None \<Rightarrow> None
      | Some (tbl', rows) \<Rightarrow> Some (w\<lparr>participants := tbl'\<rparr>, rows))"

text \<open>The \<^verbatim>\<open>catch\<close> block of the handler: log, then the generic internal error.\<close>

definition paymentRequestFailed :: "world \<Rightarrow> world \<times> (TRPCError + string)" where
  "paymentRequestFailed w =
     (w\<lparr>errorLog := errorLog w @ [''Error creating payment request'']\<rparr>,
      Inl (TRPCError INTERNAL_SERVER_ERROR None))"

text \<open>
  The handler.  Its input schema asks for at least one participant, each with
  \<^verbatim>\<open>consent: true\<close>; a request that fails the schema is answered \<^verbatim>\<open>BAD_REQUEST\<close> before
  the handler's body runs.  \<open>now\<close> is the clock of the store, which stamps the new
  payment row.  Of the writes, the creates of participants may fail; the create of
  the payment row is taken to succeed.
\<close>

definition requestSwishPayment ::
  "collaborators \<Rightarrow> int \<Rightarrow> SignupInput \<Rightarrow> world \<Rightarrow> world \<times> (TRPCError + string)" where
  "requestSwishPayment c now input w =
     (if su_participants input = [] \<or> \<not> list_all in_consent (su_participants input)
      then (w, Inl (TRPCError BAD_REQUEST None))
      else
        case find (\<lambda>e. ev_id e = su_eventId input) (events w) of
          None \<Rightarrow> (w, Inl (TRPCError BAD_REQUEST (Some ''Event not found'')))
        | Some event \<Rightarrow>
            let cost = calculateCost (su_participants input) event;
                payer = hd (su_participants input);
                message = signupMessage event (length (su_participants input));
                data = createPaymentIntentPayload c message (in_phone payer) cost
                         ''swishEventCallback''
            in
            (case transaction c event (su_participants input) w of
               None \<Rightarrow> paymentRequestFailed w
             | Some (w1, created) \<Rightarrow>
                 (case createPaymentRequest c data of
                    None \<Rightarrow> paymentRequestFailed w1
                  | Some paymentRequestUrl \<Rightarrow>
                      let paymentRequestId = last_segment paymentRequestUrl;
                          paymentIntent =
                            \<lparr>pay_id = length (swishPayments w1),
                             pay_paymentId = paymentRequestId,
                             pay_payerAlias = in_phone payer,
                             pay_payeeAlias = pi_payeeAlias data,
                             pay_amount = cost,
                             pay_message = message,
                             pay_paymentReference = None,
                             pay_paymentRequestUrl = paymentRequestUrl,
                             pay_createdAt = now,
                             pay_updatedAt = now,
                             pay_status = CREATED,
                             pay_errorCode = None,
                             pay_errorMessage = None,
                             pay_participants = map p_id created\<rparr>
                      in (w1\<lparr>swishPayments := swishPayments w1 @ [paymentIntent]\<rparr>,
                          Inr (pay_paymentId paymentIntent)))))"

section \<open>swishPaymentCallback\<close>

text \<open>\<^verbatim>\<open>swishCallbackPaymentSchema\<close>; \<open>cb_dateCreated\<close> is the instant \<^verbatim>\<open>new Date(input.dateCreated)\<close>.\<close>

record SwishCallbackPayment =
  cb_id :: string
  cb_payeePaymentReference :: string
  cb_paymentReference :: string
  cb_callbackUrl :: string
  cb_payerAlias :: string
  cb_payeeAlias :: string
  cb_currency :: string
  cb_message :: string
  cb_errorMessage :: "string option"
  cb_status :: SwishPaymentStatus
  cb_amount :: int
  cb_dateCreated :: int
  cb_datePaid :: "string option"
  cb_errorCode :: "string option"

text \<open>The row the callback creates from its payload and the payment it found.\<close>

definition callbackPayment ::
  "world \<Rightarrow> int \<Rightarrow> SwishCallbackPayment \<Rightarrow> SwishPayment \<Rightarrow> SwishPayment" where
  "callbackPayment w now input originalPayment =
     \<lparr>pay_id = length (swishPayments w),
      pay_paymentId = cb_id input,
      pay_payerAlias = cb_payerAlias input,
      pay_payeeAlias = cb_payeeAlias input,
      pay_amount = cb_amount input,
      pay_message = cb_message input,
      pay_paymentReference = Some (cb_paymentReference input),
      pay_paymentRequestUrl = pay_paymentRequestUrl originalPayment,
      pay_createdAt = cb_dateCreated input,
      pay_updatedAt = now,
      pay_status = cb_status input,
      pay_errorCode = cb_errorCode input,
      pay_errorMessage = cb_errorMessage input,
      pay_participants = map p_id (includeParticipants w originalPayment)\<rparr>"

text \<open>
  \<^verbatim>\<open>Promise.all(participants.map(sendConfirmationEmail))\<close> inside \<^verbatim>\<open>try\<close>: every send is
  started, one per participant of the list; when one rejects, the \<^verbatim>\<open>catch\<close> logs and
  nothing is thrown.
\<close>

definition sendConfirmations :: "collaborators \<Rightarrow> Participant list \<Rightarrow> world \<Rightarrow> world" where
  "sendConfirmations c ps w =
     (let w' = w\<lparr>sentConfirmations := sentConfirmations w @ ps\<rparr> in
      if list_ex (sendEmailFails c) ps
      then w'\<lparr>errorLog := errorLog w' @ [''Error sending confirmation email'']\<rparr>
      else w')"

definition swishPaymentCallback ::
  "collaborators \<Rightarrow> int \<Rightarrow> SwishCallbackPayment \<Rightarrow> world \<Rightarrow> world \<times> (TRPCError + nat)" where
  "swishPaymentCallback c now input w =
     (case find (\<lambda>p. pay_paymentId p = cb_id input) (swishPayments w) of
        None \<Rightarrow> (w, Inl (TRPCError BAD_REQUEST (Some ''Payment not found'')))
      | Some originalPayment \<Rightarrow>
          let newPayment = callbackPayment w now input originalPayment;
              w1 = w\<lparr>swishPayments := swishPayments w @ [newPayment]\<rparr>
          in
          if pay_status newPayment = PAID
          then (sendConfirmations c (includeParticipants w1 newPayment) w1, Inr 200)
          else (w1, Inr 200))"

section \<open>cancelBooking\<close>

text \<open>
  The refund message: the event's name with slashes replaced, cut at its first space,
  then the participant's name.
\<close>

definition refundMessage :: "VastraEvent \<Rightarrow> Participant \<Rightarrow> string" where
  "refundMessage event participant =
     [CHR 0xC5] @ ''terbetalning: '' @ first_word (replaceAll_slash (ev_name event))
       @ '', '' @ p_name participant"

definition refundRequestFailed :: "world \<Rightarrow> world \<times> (TRPCError + string)" where
  "refundRequestFailed w =
     (w\<lparr>errorLog := errorLog w @ [''Error creating refund request'']\<rparr>,
      Inl (TRPCError INTERNAL_SERVER_ERROR None))"

text \<open>
  \<open>today\<close> is \<^verbatim>\<open>new Date()\<close>.  The participant's event is a required relation; were the
  row missing, reading \<^verbatim>\<open>participant.event.date\<close> would throw, which the framework
  answers with its internal error, so the later \<^verbatim>\<open>if (!event)\<close> is never taken.
  \<^verbatim>\<open>!payAmount\<close> holds of the amount 0.
\<close>

definition cancelBooking ::
  "collaborators \<Rightarrow> int \<Rightarrow> string \<Rightarrow> world \<Rightarrow> world \<times> (TRPCError + string)" where
  "cancelBooking c today token w =
     (case find (\<lambda>p. p_cancellationToken p = token) (participants w) of
        None \<Rightarrow> (w, Inl (TRPCError BAD_REQUEST (Some ''Participant not found'')))
      | Some participant \<Rightarrow>
          (case includeEvent w participant of
             None \<Rightarrow> (w, Inl (TRPCError INTERNAL_SERVER_ERROR None))
           | Some event \<Rightarrow>
               let twoDaysBeforeDeparture = subDays (env_LocalTZA c) (ev_date event) 2;
                   isWithin48Hours =
                     isWithinInterval today twoDaysBeforeDeparture (ev_date event)
               in
               if isWithin48Hours
               then (w, Inl (TRPCError BAD_REQUEST (Some ''Du kan inte avboka inom 48h'')))
               else
                 (case find (\<lambda>p. pay_status p = PAID) (includePayments w participant) of
                    None \<Rightarrow> (w, Inl (TRPCError BAD_REQUEST (Some ''Payment not found'')))
                  | Some swishPayment \<Rightarrow>
                      if p_payAmount participant = 0
                      then (w, Inl (TRPCError BAD_REQUEST (Some ''Payment not found'')))
                      else
                        let message = refundMessage event participant;
                            refundData =
                              \<lparr>rd_originalPaymentReference = pay_paymentId swishPayment,
                               rd_callbackUrl = env_API_URL c @ ''/payment/swishCallback'',
                               rd_payerAlias = ''1234679304'',
                               rd_amount = p_payAmount participant,
                               rd_currency = ''SEK'',
                               rd_message = message\<rparr>
                        in
                        (case createRefundRequest c refundData of
                           None \<Rightarrow> refundRequestFailed w
                         | Some refundRequestUrl \<Rightarrow>
                             let refundRequestId = last_segment refundRequestUrl;
                                 refundIntent =
                                   \<lparr>ref_id = length (swishRefunds w),
                                    ref_refundId = refundRequestId,
                                    ref_paymentId = pay_id swishPayment,
                                    ref_paymentReference =
                                      pay_paymentReference swishPayment,
                                    ref_payerAlias = rd_payerAlias refundData,
                                    ref_payeeAlias = pay_payerAlias swishPayment,
                                    ref_amount = rd_amount refundData,
                                    ref_message = rd_message refundData,
                                    ref_status = REFUND_CREATED,
                                    ref_participantId = p_id participant,
                                    ref_createdAt = today,
                                    ref_updatedAt = today\<rparr>
                             in (w\<lparr>swishRefunds := swishRefunds w @ [refundIntent]\<rparr>,
                                 Inr (ref_refundId refundIntent))))))"

section \<open>getCancellableParticipant\<close>




section \<open>The capacity read model\<close>

text \<open>
  The filter of \<^verbatim>\<open>busesWithPaidPassengers\<close>: \<^verbatim>\<open>swishPayments: { some: { status: PAID } }\<close> and
  \<^verbatim>\<open>swishRefunds: { none: { status: PAID } }\<close>.
\<close>

definition paidPassenger :: "world \<Rightarrow> Participant \<Rightarrow> bool" where
  "paidPassenger w p =
     (list_ex (\<lambda>pay. pay_status pay = PAID) (includePayments w p) \<and>
      \<not> list_ex (\<lambda>r. ref_status r = REFUND_PAID) (includeRefunds w p))"

record BusWithCount =
  bc_bus :: Bus
  count_passengers :: nat

definition busesWithPaidPassengers :: "world \<Rightarrow> VastraEvent \<Rightarrow> BusWithCount list" where
  "busesWithPaidPassengers w event =
     map (\<lambda>b. \<lparr>bc_bus = b,
               count_passengers = length (filter (paidPassenger w) (passengers w b))\<rparr>)
         (filter (\<lambda>b. bus_eventId b = ev_id event) (buses w))"

record AwayGame =
  ag_event :: VastraEvent
  ag_buses :: "BusWithCount list"
  maxSeats :: int
  bookedSeats :: int

definition getAwayGames :: "int \<Rightarrow> world \<Rightarrow> AwayGame list" where
  "getAwayGames now w =
     map (\<lambda>event.
            let bs = busesWithPaidPassengers w event in
            \<lparr>ag_event = event, ag_buses = bs,
             maxSeats = foldl (\<lambda>acc bus. acc + seats (bc_bus bus)) 0 bs,
             bookedSeats = foldl (\<lambda>acc bus. acc + int (count_passengers bus)) 0 bs\<rparr>)
         (filter (\<lambda>e. subHours now 8 \<le> ev_date e) (events w))"

definition getAwayGame ::
  "string \<Rightarrow> world \<Rightarrow> TRPCError + (VastraEvent \<times> BusWithCount list)" where
  "getAwayGame ident w =
     (case find (\<lambda>e. ev_id e = ident) (events w) of
        None \<Rightarrow> Inl (TRPCError NOT_FOUND None)
      | Some res \<Rightarrow> Inr (res, busesWithPaidPassengers w res))"

section \<open>The read models the data model describes\<close>

text \<open>
  Modelled from the spec: the reader of a payment's current status
  (\<^verbatim>\<open>checkPaymentStatus\<close> of \<^verbatim>\<open>~/server/utils/payment\<close>) is not among the sources.  The data
  model says: the current status for a payment id is the status of its most recently
  created row.  A table lists its rows in the order of their creation, so the most
  recently created row is the last one.
\<close>

definition mostRecent :: "'a list \<Rightarrow> 'a option" where
  "mostRecent rows = (if rows = [] then None else Some (last rows))"

definition currentStatus :: "world \<Rightarrow> string \<Rightarrow> SwishPaymentStatus option" where
  "currentStatus w pid =
     map_option pay_status
       (mostRecent (filter (\<lambda>p. pay_paymentId p = pid) (swishPayments w)))"

text \<open>
  Modelled from the spec, second reading: the design notes take the latest row by
  creation time and leave open which row wins among equal timestamps.  Read so, the
  current statuses of a payment id are the statuses of all its rows whose
  \<^verbatim>\<open>createdAt\<close> stamp is the greatest.
\<close>

definition latestRows :: "SwishPayment list \<Rightarrow> SwishPayment list" where
  "latestRows rows =
     filter (\<lambda>r. list_all (\<lambda>r'. pay_createdAt r' \<le> pay_createdAt r) rows) rows"

definition latestStatuses :: "world \<Rightarrow> string \<Rightarrow> SwishPaymentStatus set" where
  "latestStatuses w pid =
     set (map pay_status
            (latestRows (filter (\<lambda>p. pay_paymentId p = pid) (swishPayments w))))"

text \<open>
  Following the spec's words for the capacity calculator: a participant counts as
  booked when its most recent payment request is PAID and its most recent refund
  request, if any, is not PAID.
\<close>

definition spec_booked :: "world \<Rightarrow> Participant \<Rightarrow> bool" where
  "spec_booked w p =
     (map_option pay_status (mostRecent (includePayments w p)) = Some PAID \<and>
      map_option ref_status (mostRecent (includeRefunds w p)) \<noteq> Some REFUND_PAID)"

definition spec_bookedSeats :: "world \<Rightarrow> Bus \<Rightarrow> nat" where
  "spec_bookedSeats w b = length (filter (spec_booked w) (passengers w b))"

section \<open>Sample data\<close>

text \<open>
  One trip with the tier prices 100, 80, 60 and 40, leaving at the instant
  1000000000 (13:46 UTC), with one bus of ten seats; a gateway, a mail service and a
  storage engine that all succeed; a server on UTC.
\<close>

definition demo_event :: VastraEvent where
  "demo_event =
     \<lparr>ev_id = ''e1'', ev_name = ''GAIS/borta 12 maj'', ev_date = 1000000000,
      defaultPrice = 100, memberPrice = 80, youthPrice = 60, youthMemberPrice = 40\<rparr>"

definition demo_bus :: Bus where
  "demo_bus = \<lparr>bus_id = ''b1'', bus_eventId = ''e1'', seats = 10\<rparr>"

definition demo_collaborators :: collaborators where
  "demo_collaborators =
     \<lparr>createPaymentRequest = (\<lambda>d. Some ''https://gw.test/paymentrequests/AB12''),
      createRefundRequest = (\<lambda>d. Some ''https://gw.test/refunds/RF77''),
      sendEmailFails = (\<lambda>p. False),
      participantCreateFails = (\<lambda>tbl p. False),
      generateToken = (\<lambda>i. ''tok'' @ string_of_nat i),
      env_API_URL = ''https://api.test'',
      env_payeeAlias = ''1231181189'',
      env_LocalTZA = (\<lambda>t isUTC. 0)\<rparr>"

definition traveller :: "string \<Rightarrow> bool \<Rightarrow> bool \<Rightarrow> ParticipantInput" where
  "traveller n m y =
     \<lparr>in_name = n, in_email = n @ ''@example.org'', in_phone = ''46700000001'',
      in_consent = True, in_note = None, in_busId = ''b1'', in_member = m, in_youth = y\<rparr>"

definition demo_signup :: SignupInput where
  "demo_signup =
     \<lparr>su_participants = [traveller ''ann'' True False, traveller ''bo'' False True],
      su_eventId = ''e1''\<rparr>"

definition demo_world :: world where
  "demo_world =
     \<lparr>events = [demo_event], buses = [demo_bus], participants = [], swishPayments = [],
      swishRefunds = [], sentConfirmations = [], errorLog = []\<rparr>"

text \<open>
  The same trip, free of charge for young members, and the signup of a member with a
  young member at the instant 5; the gateway's report that the payment is PAID,
  handled at the instant 9.
\<close>

definition free_world :: world where
  "free_world = demo_world\<lparr>events := [demo_event\<lparr>youthMemberPrice := 0\<rparr>]\<rparr>"

definition family_signup :: SignupInput where
  "family_signup =
     \<lparr>su_participants = [traveller ''ann'' True False, traveller ''cy'' True True],
      su_eventId = ''e1''\<rparr>"

definition signed_world :: world where
  "signed_world = fst (requestSwishPayment demo_collaborators 5 family_signup free_world)"

definition paid_callback :: SwishCallbackPayment where
  "paid_callback =
     \<lparr>cb_id = ''AB12'', cb_payeePaymentReference = ''ref'', cb_paymentReference = ''1E2FC1'',
      cb_callbackUrl = ''https://api.test/payment/swishEventCallback'',
      cb_payerAlias = ''46700000001'', cb_payeeAlias = ''1231181189'', cb_currency = ''SEK'',
      cb_message = ''GAIS-borta 12 maj. 2 resen'' @ [CHR 0xE4] @ ''rer'',
      cb_errorMessage = None, cb_status = PAID, cb_amount = 80, cb_dateCreated = 6,
      cb_datePaid = Some ''8'', cb_errorCode = None\<rparr>"

definition paid_world :: world where
  "paid_world = fst (swishPaymentCallback demo_collaborators 9 paid_callback signed_world)"


definition last_fails :: collaborators where
  "last_fails = demo_collaborators\<lparr>participantCreateFails := (\<lambda>tbl p. in_name p = ''cy'')\<rparr>"

definition gateway_down :: collaborators where
  "gateway_down = demo_collaborators\<lparr>createPaymentRequest := (\<lambda>d. None)\<rparr>"

definition mail_down :: collaborators where
  "mail_down = demo_collaborators\<lparr>sendEmailFails := (\<lambda>p. True)\<rparr>"

text \<open>
  A coach of nine travellers who signed up and paid together (a CREATED row, then a
  PAID row, of one payment id); the travellers 7 and 8 each cancelled and were
  refunded (a CREATED refund row, then a PAID one).
\<close>

definition passenger :: "nat \<Rightarrow> Participant" where
  "passenger i =
     \<lparr>p_id = i, p_name = ''p'' @ string_of_nat i, p_email = ''p@example.org'',
      p_phone = ''46700000001'', p_note = None, p_busId = ''b1'', p_member = False,
      p_youth = False, p_payAmount = 100, p_eventId = ''e1'',
      p_cancellationToken = ''tok'' @ string_of_nat i\<rparr>"

definition group_payment :: "nat \<Rightarrow> SwishPaymentStatus \<Rightarrow> int \<Rightarrow> SwishPayment" where
  "group_payment i st t =
     \<lparr>pay_id = i, pay_paymentId = ''CD34'', pay_payerAlias = ''46700000001'',
      pay_payeeAlias = ''1231181189'', pay_amount = 900, pay_message = ''GAIS-borta'',
      pay_paymentReference = None,
      pay_paymentRequestUrl = ''https://gw.test/paymentrequests/CD34'',
      pay_createdAt = t, pay_updatedAt = t, pay_status = st, pay_errorCode = None,
      pay_errorMessage = None, pay_participants = [0, 1, 2, 3, 4, 5, 6, 7, 8]\<rparr>"

definition refund_row :: "nat \<Rightarrow> nat \<Rightarrow> SwishRefundStatus \<Rightarrow> int \<Rightarrow> SwishRefund" where
  "refund_row i who st t =
     \<lparr>ref_id = i, ref_refundId = ''RF'' @ string_of_nat who, ref_paymentId = 1,
      ref_paymentReference = None, ref_payerAlias = ''1234679304'',
      ref_payeeAlias = ''46700000001'', ref_amount = 100, ref_message = ''GAIS-borta'',
      ref_status = st, ref_participantId = who, ref_createdAt = t, ref_updatedAt = t\<rparr>"

definition coach_world :: world where
  "coach_world =
     demo_world
       \<lparr>participants := map passenger [0, 1, 2, 3, 4, 5, 6, 7, 8],
        swishPayments := [group_payment 0 CREATED 5, group_payment 1 PAID 6],
        swishRefunds :=
          [refund_row 0 7 REFUND_CREATED 20, refund_row 1 7 REFUND_PAID 21,
           refund_row 2 8 REFUND_CREATED 30, refund_row 3 8 REFUND_PAID 31]\<rparr>"

text \<open>
  The sample payment after one more report for the same payment id, DECLINED, handled
  at the instant 12.
\<close>

definition declined_world :: world where
  "declined_world =
     fst (swishPaymentCallback demo_collaborators 12 (paid_callback\<lparr>cb_status := DECLINED\<rparr>)
            paid_world)"

section \<open>The cost rule and the signup\<close>

lemma foldl_add_sum_list:
  "foldl (\<lambda>acc x. acc + f x) a xs = a + sum_list (map f xs)" for a :: int
  by (induction xs arbitrary: a) simp_all

lemma calculateCost_sum_list:
  "calculateCost ps event = (\<Sum>p\<leftarrow>ps. getParticipantCost p event)"
  by (simp add: calculateCost_def foldl_add_sum_list)

lemma createParticipants_rows:
  "createParticipants c event tbl ps = Some (tbl', rows) \<Longrightarrow>
     tbl' = tbl @ rows \<and>
     map p_payAmount rows = map (\<lambda>p. getParticipantCost p event) ps \<and>
     length rows = length ps"
proof (induction ps arbitrary: tbl tbl' rows)
  case Nil
  then show ?case by simp
next
  case (Cons p ps)
  from Cons.prems obtain rest where
    ok: "\<not> participantCreateFails c tbl p" and
    rec: "createParticipants c event (tbl @ [newParticipant c (length tbl) p event]) ps
            = Some (tbl', rest)" and
    rows: "rows = newParticipant c (length tbl) p event # rest"
    by (auto simp: Let_def split: if_splits option.splits)
  from Cons.IH [OF rec] rows show ?case
    by (simp add: newParticipant_def)
qed

lemma requestSwishPayment_success:
  assumes "requestSwishPayment c now input w = (w', Inr pid)"
  shows "\<exists>event created url.
           find (\<lambda>e. ev_id e = su_eventId input) (events w) = Some event \<and>
           createParticipants c event (participants w) (su_participants input)
             = Some (participants w @ created, created) \<and>
           createPaymentRequest c
             (createPaymentIntentPayload c
                (signupMessage event (length (su_participants input)))
                (in_phone (hd (su_participants input)))
                (calculateCost (su_participants input) event) ''swishEventCallback'')
             = Some url \<and>
           pid = last_segment url \<and>
           participants w' = participants w @ created \<and>
           swishPayments w' = swishPayments w @
             [\<lparr>pay_id = length (swishPayments w), pay_paymentId = last_segment url,
               pay_payerAlias = in_phone (hd (su_participants input)),
               pay_payeeAlias = env_payeeAlias c,
               pay_amount = calculateCost (su_participants input) event,
               pay_message = signupMessage event (length (su_participants input)),
               pay_paymentReference = None, pay_paymentRequestUrl = url,
               pay_createdAt = now, pay_updatedAt = now, pay_status = CREATED,
               pay_errorCode = None, pay_errorMessage = None,
               pay_participants = map p_id created\<rparr>]"
  using assms
  by (auto simp: requestSwishPayment_def transaction_def paymentRequestFailed_def Let_def
        createPaymentIntentPayload_def
      split: if_splits option.splits prod.splits dest!: createParticipants_rows)

text \<open>
  C3.  The cost of a participant is decided by the two flags, and the four cases cover
  every participant: youth and member pay the youth-member price, youth alone the
  youth price, member alone the member price, and neither the default price.  The
  total is the sum of the participants' costs; a signup that succeeds stores that
  cost on each new participant, and asks the gateway for, and stores on the payment
  row, the sum.
\<close>

theorem signup_cost_rule:
  "(in_youth p \<and> in_member p \<longrightarrow> getParticipantCost p event = youthMemberPrice event) \<and>
   (in_youth p \<and> \<not> in_member p \<longrightarrow> getParticipantCost p event = youthPrice event) \<and>
   (\<not> in_youth p \<and> in_member p \<longrightarrow> getParticipantCost p event = memberPrice event) \<and>
   (\<not> in_youth p \<and> \<not> in_member p \<longrightarrow> getParticipantCost p event = defaultPrice event) \<and>
   calculateCost ps event = (\<Sum>q\<leftarrow>ps. getParticipantCost q event) \<and>
   (requestSwishPayment c now input w = (w', Inr pid) \<longrightarrow>
      (\<exists>ev created data url pay.
         find (\<lambda>e. ev_id e = su_eventId input) (events w) = Some ev \<and>
         participants w' = participants w @ created \<and>
         map p_payAmount created = map (\<lambda>q. getParticipantCost q ev) (su_participants input) \<and>
         createPaymentRequest c data = Some url \<and>
         pi_amount data = (\<Sum>q\<leftarrow>su_participants input. getParticipantCost q ev) \<and>
         swishPayments w' = swishPayments w @ [pay] \<and>
         pay_status pay = CREATED \<and>
         pay_amount pay = (\<Sum>q\<leftarrow>su_participants input. getParticipantCost q ev)))"
proof -
  have tiers:
    "(in_youth p \<and> in_member p \<longrightarrow> getParticipantCost p event = youthMemberPrice event) \<and>
     (in_youth p \<and> \<not> in_member p \<longrightarrow> getParticipantCost p event = youthPrice event) \<and>
     (\<not> in_youth p \<and> in_member p \<longrightarrow> getParticipantCost p event = memberPrice event) \<and>
     (\<not> in_youth p \<and> \<not> in_member p \<longrightarrow> getParticipantCost p event = defaultPrice event)"
    by (simp add: getParticipantCost_def)
  have total: "calculateCost ps event = (\<Sum>q\<leftarrow>ps. getParticipantCost q event)"
    by (rule calculateCost_sum_list)
  have request: "\<exists>ev created data url pay.
         find (\<lambda>e. ev_id e = su_eventId input) (events w) = Some ev \<and>
         participants w' = participants w @ created \<and>
         map p_payAmount created = map (\<lambda>q. getParticipantCost q ev) (su_participants input) \<and>
         createPaymentRequest c data = Some url \<and>
         pi_amount data = (\<Sum>q\<leftarrow>su_participants input. getParticipantCost q ev) \<and>
         swishPayments w' = swishPayments w @ [pay] \<and>
         pay_status pay = CREATED \<and>
         pay_amount pay = (\<Sum>q\<leftarrow>su_participants input. getParticipantCost q ev)"
    if run: "requestSwishPayment c now input w = (w', Inr pid)"
  proof -
    from requestSwishPayment_success [OF run] obtain ev created url where
      ev: "find (\<lambda>e. ev_id e = su_eventId input) (events w) = Some ev" and
      cr: "createParticipants c ev (participants w) (su_participants input)
             = Some (participants w @ created, created)" and
      gw: "createPaymentRequest c
             (createPaymentIntentPayload c
                (signupMessage ev (length (su_participants input)))
                (in_phone (hd (su_participants input)))
                (calculateCost (su_participants input) ev) ''swishEventCallback'')
             = Some url" and
      ps: "participants w' = participants w @ created" and
      pays: "swishPayments w' = swishPayments w @
             [\<lparr>pay_id = length (swishPayments w), pay_paymentId = last_segment url,
               pay_payerAlias = in_phone (hd (su_participants input)),
               pay_payeeAlias = env_payeeAlias c,
               pay_amount = calculateCost (su_participants input) ev,
               pay_message = signupMessage ev (length (su_participants input)),
               pay_paymentReference = None, pay_paymentRequestUrl = url,
               pay_createdAt = now, pay_updatedAt = now, pay_status = CREATED,
               pay_errorCode = None, pay_errorMessage = None,
               pay_participants = map p_id created\<rparr>]"
      by blast
    from createParticipants_rows [OF cr] have
      amounts: "map p_payAmount created
                  = map (\<lambda>q. getParticipantCost q ev) (su_participants input)"
      by simp
    show ?thesis
      apply (rule exI [of _ ev], rule exI [of _ created])
      apply (rule exI [of _ "createPaymentIntentPayload c
                (signupMessage ev (length (su_participants input)))
                (in_phone (hd (su_participants input)))
                (calculateCost (su_participants input) ev) ''swishEventCallback''"])
      apply (rule exI [of _ url])
      using ev ps amounts gw pays
      by (simp add: calculateCost_sum_list createPaymentIntentPayload_def)
  qed
  from tiers total request show ?thesis by blast
qed

text \<open>
  The sample trip (default 100, member 80, youth 60, youth-member 40): the four cases
  give 40, 60, 80 and 100, and the signup of a member and a youth is charged 140.
\<close>

theorem signup_cost_rule_witness:
  "getParticipantCost (traveller ''cy'' True True) demo_event = 40 \<and>
   getParticipantCost (traveller ''bo'' False True) demo_event = 60 \<and>
   getParticipantCost (traveller ''ann'' True False) demo_event = 80 \<and>
   getParticipantCost (traveller ''di'' False False) demo_event = 100 \<and>
   calculateCost (su_participants demo_signup) demo_event = 140 \<and>
   snd (requestSwishPayment demo_collaborators 5 demo_signup demo_world) = Inr ''AB12'' \<and>
   map pay_amount (swishPayments (fst (requestSwishPayment demo_collaborators 5 demo_signup demo_world))) = [140] \<and>
   map p_payAmount (participants (fst (requestSwishPayment demo_collaborators 5 demo_signup demo_world))) = [80, 60]"
  using signup_cost_rule [of "traveller ''cy'' True True" demo_event "su_participants demo_signup"
     demo_collaborators 5 demo_signup demo_world 
     "fst (requestSwishPayment demo_collaborators 5 demo_signup demo_world)" "''AB12''"]
    signup_cost_rule [of "traveller ''bo'' False True" demo_event]
    signup_cost_rule [of "traveller ''ann'' True False" demo_event]
    signup_cost_rule [of "traveller ''di'' False False" demo_event]
  by (simp add: traveller_def demo_event_def demo_signup_def demo_world_def demo_collaborators_def
       requestSwishPayment_def transaction_def Let_def last_segment_def createPaymentIntentPayload_def
       newParticipant_def getParticipantCost_def calculateCost_def)

section \<open>Participants of a signup: all or nothing\<close>

lemmas demo_defs =
  demo_event_def demo_bus_def demo_collaborators_def traveller_def demo_signup_def
  demo_world_def free_world_def family_signup_def

lemmas signup_defs =
  requestSwishPayment_def transaction_def paymentRequestFailed_def
  createPaymentIntentPayload_def newParticipant_def signupMessage_def replaceAll_slash_def
  last_segment_def getParticipantCost_def calculateCost_def Let_def

lemma signed_world_eq:
  "signed_world =
     free_world
       \<lparr>participants :=
          [\<lparr>p_id = 0, p_name = ''ann'', p_email = ''ann@example.org'',
            p_phone = ''46700000001'', p_note = None, p_busId = ''b1'', p_member = True,
            p_youth = False, p_payAmount = 80, p_eventId = ''e1'',
            p_cancellationToken = ''tok0''\<rparr>,
           \<lparr>p_id = 1, p_name = ''cy'', p_email = ''cy@example.org'',
            p_phone = ''46700000001'', p_note = None, p_busId = ''b1'', p_member = True,
            p_youth = True, p_payAmount = 0, p_eventId = ''e1'',
            p_cancellationToken = ''tok1''\<rparr>],
        swishPayments :=
          [\<lparr>pay_id = 0, pay_paymentId = ''AB12'', pay_payerAlias = ''46700000001'',
            pay_payeeAlias = ''1231181189'', pay_amount = 80,
            pay_message = ''GAIS-borta 12 maj. 2 resen'' @ [CHR 0xE4] @ ''rer'',
            pay_paymentReference = None,
            pay_paymentRequestUrl = ''https://gw.test/paymentrequests/AB12'',
            pay_createdAt = 5, pay_updatedAt = 5, pay_status = CREATED,
            pay_errorCode = None, pay_errorMessage = None, pay_participants = [0, 1]\<rparr>]\<rparr>"
  by (simp add: signed_world_def demo_defs signup_defs string_of_nat.simps)

lemma createParticipants_stops:
  "createParticipants c event tbl before = Some (tbl1, rows1) \<Longrightarrow>
   participantCreateFails c tbl1 p \<Longrightarrow>
   createParticipants c event tbl (before @ p # after) = None"
proof (induction before arbitrary: tbl rows1)
  case Nil
  then show ?case by simp
next
  case (Cons q qs)
  then show ?case
    by (auto simp: Let_def split: if_splits option.splits)
qed

lemma requestSwishPayment_participants:
  "participants (fst (requestSwishPayment c now input w)) =
     (if su_participants input = [] \<or> \<not> list_all in_consent (su_participants input)
      then participants w
      else case find (\<lambda>e. ev_id e = su_eventId input) (events w) of
             None \<Rightarrow> participants w
           | Some event \<Rightarrow>
               (case createParticipants c event (participants w) (su_participants input) of
                  None \<Rightarrow> participants w
                | Some (tbl', rows) \<Rightarrow> tbl'))"
  by (simp add: requestSwishPayment_def transaction_def paymentRequestFailed_def Let_def
      split: option.splits prod.splits)

text \<open>
  C4.  A signup leaves the participant table either as it was or longer by exactly
  one row per participant of the request.  When the creates of the first participants
  succeed and the next one fails, the table is as it was, none of the earlier rows is
  kept, and the caller gets an error.
\<close>

theorem signup_participants_all_or_nothing:
  "(participants (fst (requestSwishPayment c now input w)) = participants w \<or>
    (\<exists>created. length created = length (su_participants input) \<and>
       participants (fst (requestSwishPayment c now input w)) = participants w @ created)) \<and>
   (find (\<lambda>e. ev_id e = su_eventId input) (events w) = Some event \<and>
    su_participants input = before @ p # after \<and>
    createParticipants c event (participants w) before = Some (tbl1, rows1) \<and>
    participantCreateFails c tbl1 p \<longrightarrow>
      participants (fst (requestSwishPayment c now input w)) = participants w \<and>
      (\<exists>e. snd (requestSwishPayment c now input w) = Inl e))"
proof -
  have dichotomy:
    "participants (fst (requestSwishPayment c now input w)) = participants w \<or>
     (\<exists>created. length created = length (su_participants input) \<and>
        participants (fst (requestSwishPayment c now input w)) = participants w @ created)"
    by (auto simp: requestSwishPayment_participants
        split: option.splits dest!: createParticipants_rows)
  have injected:
    "participants (fst (requestSwishPayment c now input w)) = participants w \<and>
     (\<exists>e. snd (requestSwishPayment c now input w) = Inl e)"
    if ev: "find (\<lambda>e. ev_id e = su_eventId input) (events w) = Some event"
      and split: "su_participants input = before @ p # after"
      and before: "createParticipants c event (participants w) before = Some (tbl1, rows1)"
      and fails: "participantCreateFails c tbl1 p"
  proof -
    from createParticipants_stops [OF before fails] split
    have none: "createParticipants c event (participants w) (su_participants input) = None"
      by simp
    from none ev show ?thesis
      by (simp add: requestSwishPayment_def transaction_def paymentRequestFailed_def Let_def)
  qed
  from dichotomy injected show ?thesis by blast
qed

text \<open>
  A storage engine that refuses the second participant of the sample signup: the first
  create succeeds inside the transaction, and no row is left.  With the engine that
  accepts both, two rows are stored.
\<close>

theorem signup_participants_all_or_nothing_witness:
  "find (\<lambda>e. ev_id e = su_eventId family_signup) (events free_world)
     = Some (demo_event\<lparr>youthMemberPrice := 0\<rparr>) \<and>
   su_participants family_signup = [traveller ''ann'' True False] @ traveller ''cy'' True True # [] \<and>
   createParticipants last_fails (demo_event\<lparr>youthMemberPrice := 0\<rparr>) (participants free_world)
       [traveller ''ann'' True False]
     = Some ([newParticipant last_fails 0 (traveller ''ann'' True False) (demo_event\<lparr>youthMemberPrice := 0\<rparr>)],
             [newParticipant last_fails 0 (traveller ''ann'' True False) (demo_event\<lparr>youthMemberPrice := 0\<rparr>)]) \<and>
   participantCreateFails last_fails
     [newParticipant last_fails 0 (traveller ''ann'' True False) (demo_event\<lparr>youthMemberPrice := 0\<rparr>)]
     (traveller ''cy'' True True) \<and>
   participants (fst (requestSwishPayment last_fails 5 family_signup free_world)) = [] \<and>
   snd (requestSwishPayment last_fails 5 family_signup free_world)
     = Inl (TRPCError INTERNAL_SERVER_ERROR None) \<and>
   length (participants signed_world) = 2"
proof -
  let ?ev = "demo_event\<lparr>youthMemberPrice := 0\<rparr>"
  let ?ann = "traveller ''ann'' True False"
  let ?row = "newParticipant last_fails 0 ?ann ?ev"
  have ev: "find (\<lambda>e. ev_id e = su_eventId family_signup) (events free_world) = Some ?ev"
    by (simp add: demo_defs)
  have split: "su_participants family_signup = [?ann] @ traveller ''cy'' True True # []"
    by (simp add: family_signup_def)
  have before: "createParticipants last_fails ?ev (participants free_world) [?ann]
                  = Some ([?row], [?row])"
    by (simp add: demo_defs last_fails_def Let_def)
  have fails: "participantCreateFails last_fails [?row] (traveller ''cy'' True True)"
    by (simp add: last_fails_def traveller_def)
  from signup_participants_all_or_nothing [of last_fails 5 family_signup free_world ?ev
      "[?ann]" "traveller ''cy'' True True" "[]" "[?row]" "[?row]"] ev split before fails
  have rolled_back: "participants (fst (requestSwishPayment last_fails 5 family_signup free_world))
                   = participants free_world"
    by blast
  have err: "snd (requestSwishPayment last_fails 5 family_signup free_world)
               = Inl (TRPCError INTERNAL_SERVER_ERROR None)"
    by (simp add: demo_defs last_fails_def signup_defs)
  have two: "length (participants signed_world) = 2"
    by (simp add: signed_world_eq)
  have empty: "participants free_world = []"
    by (simp add: free_world_def demo_world_def)
  have rolled_back': "participants (fst (requestSwishPayment last_fails 5 family_signup free_world)) = []"
    by (rule trans [OF rolled_back empty])
  from ev split before fails rolled_back' err two show ?thesis
    by blast
qed

text \<open>
  C8.  When the participants were committed and the gateway call then fails, the
  handler raises the internal error, returns no payment id, and leaves the store
  with the committed participant rows (and one more line in the error log); no
  payment row is written.  When the event does not exist, the handler raises the
  error \<^verbatim>\<open>BAD_REQUEST\<close> with the message ``Event not found'', and the store is as it was.
\<close>

theorem signup_gateway_failure_keeps_participants:
  "(su_participants input \<noteq> [] \<and> list_all in_consent (su_participants input) \<and>
    find (\<lambda>e. ev_id e = su_eventId input) (events w) = Some event \<and>
    createParticipants c event (participants w) (su_participants input) = Some (tbl', created) \<and>
    createPaymentRequest c
      (createPaymentIntentPayload c
         (signupMessage event (length (su_participants input)))
         (in_phone (hd (su_participants input)))
         (calculateCost (su_participants input) event) ''swishEventCallback'') = None
    \<longrightarrow>
      requestSwishPayment c now input w =
        (w\<lparr>participants := participants w @ created,
           errorLog := errorLog w @ [''Error creating payment request'']\<rparr>,
         Inl (TRPCError INTERNAL_SERVER_ERROR None)) \<and>
      length created = length (su_participants input)) \<and>
   (su_participants input \<noteq> [] \<and> list_all in_consent (su_participants input) \<and>
    find (\<lambda>e. ev_id e = su_eventId input) (events w) = None
    \<longrightarrow>
      requestSwishPayment c now input w =
        (w, Inl (TRPCError BAD_REQUEST (Some ''Event not found''))))"
proof -
  have gateway:
    "requestSwishPayment c now input w =
        (w\<lparr>participants := participants w @ created,
           errorLog := errorLog w @ [''Error creating payment request'']\<rparr>,
         Inl (TRPCError INTERNAL_SERVER_ERROR None)) \<and>
      length created = length (su_participants input)"
    if valid: "su_participants input \<noteq> []" "list_all in_consent (su_participants input)"
      and ev: "find (\<lambda>e. ev_id e = su_eventId input) (events w) = Some event"
      and cr: "createParticipants c event (participants w) (su_participants input)
                 = Some (tbl', created)"
      and gw: "createPaymentRequest c
                 (createPaymentIntentPayload c
                    (signupMessage event (length (su_participants input)))
                    (in_phone (hd (su_participants input)))
                    (calculateCost (su_participants input) event) ''swishEventCallback'')
                 = None"
  proof -
    from createParticipants_rows [OF cr] have
      tbl: "tbl' = participants w @ created" and
      len: "length created = length (su_participants input)"
      by simp_all
    from valid ev cr gw tbl have
      "requestSwishPayment c now input w =
        (w\<lparr>participants := participants w @ created,
           errorLog := errorLog w @ [''Error creating payment request'']\<rparr>,
         Inl (TRPCError INTERNAL_SERVER_ERROR None))"
      by (simp add: requestSwishPayment_def transaction_def paymentRequestFailed_def Let_def)
    with len show ?thesis by simp
  qed
  have missing:
    "requestSwishPayment c now input w =
       (w, Inl (TRPCError BAD_REQUEST (Some ''Event not found'')))"
    if "su_participants input \<noteq> []" "list_all in_consent (su_participants input)"
      "find (\<lambda>e. ev_id e = su_eventId input) (events w) = None"
    using that by (simp add: requestSwishPayment_def)
  from gateway missing show ?thesis by blast
qed

text \<open>
  The sample signup against a gateway that is down keeps its two participants; the
  same signup for the unknown event e9 changes nothing.
\<close>

theorem signup_gateway_failure_keeps_participants_witness:
  "su_participants family_signup \<noteq> [] \<and>
   list_all in_consent (su_participants family_signup) \<and>
   find (\<lambda>e. ev_id e = su_eventId family_signup) (events free_world)
     = Some (demo_event\<lparr>youthMemberPrice := 0\<rparr>) \<and>
   createParticipants gateway_down (demo_event\<lparr>youthMemberPrice := 0\<rparr>)
       (participants free_world) (su_participants family_signup)
     = Some (participants signed_world, participants signed_world) \<and>
   createPaymentRequest gateway_down
      (createPaymentIntentPayload gateway_down
         (signupMessage (demo_event\<lparr>youthMemberPrice := 0\<rparr>)
            (length (su_participants family_signup)))
         (in_phone (hd (su_participants family_signup)))
         (calculateCost (su_participants family_signup) (demo_event\<lparr>youthMemberPrice := 0\<rparr>))
         ''swishEventCallback'') = None \<and>
   requestSwishPayment gateway_down 5 family_signup free_world =
     (free_world\<lparr>participants := participants signed_world,
        errorLog := [''Error creating payment request'']\<rparr>,
      Inl (TRPCError INTERNAL_SERVER_ERROR None)) \<and>
   length (participants signed_world) = 2 \<and>
   find (\<lambda>e. ev_id e = ''e9'') (events free_world) = None \<and>
   requestSwishPayment gateway_down 5 (family_signup\<lparr>su_eventId := ''e9''\<rparr>) free_world =
     (free_world, Inl (TRPCError BAD_REQUEST (Some ''Event not found'')))"
proof -
  let ?ev = "demo_event\<lparr>youthMemberPrice := 0\<rparr>"
  have valid: "su_participants family_signup \<noteq> []"
      "list_all in_consent (su_participants family_signup)"
    by (simp_all add: family_signup_def traveller_def)
  have ev: "find (\<lambda>e. ev_id e = su_eventId family_signup) (events free_world) = Some ?ev"
    by (simp add: demo_defs)
  have cr: "createParticipants gateway_down ?ev (participants free_world)
              (su_participants family_signup)
            = Some (participants signed_world, participants signed_world)"
    by (simp add: signed_world_eq demo_defs gateway_down_def newParticipant_def
          getParticipantCost_def Let_def string_of_nat.simps)
  have gw: "createPaymentRequest gateway_down
      (createPaymentIntentPayload gateway_down
         (signupMessage ?ev (length (su_participants family_signup)))
         (in_phone (hd (su_participants family_signup)))
         (calculateCost (su_participants family_signup) ?ev)
         ''swishEventCallback'') = None"
    by (simp add: gateway_down_def)
  have none: "find (\<lambda>e. ev_id e = ''e9'') (events free_world) = None"
    by (simp add: demo_defs)
  have empty: "participants free_world = []" "errorLog free_world = []"
    by (simp_all add: free_world_def demo_world_def)
  from signup_gateway_failure_keeps_participants
         [of family_signup free_world ?ev gateway_down "participants signed_world"
             "participants signed_world" 5]
       valid ev cr gw empty
  have kept: "requestSwishPayment gateway_down 5 family_signup free_world =
     (free_world\<lparr>participants := participants signed_world,
        errorLog := [''Error creating payment request'']\<rparr>,
      Inl (TRPCError INTERNAL_SERVER_ERROR None))"
      and two: "length (participants signed_world) = 2"
    by (simp_all add: family_signup_def)
  from signup_gateway_failure_keeps_participants
         [of "family_signup\<lparr>su_eventId := ''e9''\<rparr>" free_world ?ev gateway_down
             "participants signed_world" "participants signed_world" 5]
       valid none
  have gone: "requestSwishPayment gateway_down 5 (family_signup\<lparr>su_eventId := ''e9''\<rparr>)
                free_world
              = (free_world, Inl (TRPCError BAD_REQUEST (Some ''Event not found'')))"
    by simp
  from valid ev cr gw kept two none gone show ?thesis
    by blast
qed

section \<open>The payment callback\<close>

lemma includeParticipants_append_payment:
  "includeParticipants (w\<lparr>swishPayments := pays\<rparr>) pay = includeParticipants w pay"
  by (simp add: includeParticipants_def)

lemma callbackPayment_linked:
  "includeParticipants w (callbackPayment w now input originalPayment)
     = includeParticipants w originalPayment"
  by (auto simp: includeParticipants_def callbackPayment_def intro: filter_cong)

lemma swishPaymentCallback_known:
  assumes "find (\<lambda>p. pay_paymentId p = cb_id input) (swishPayments w) = Some originalPayment"
  shows "swishPaymentCallback c now input w =
           ((if cb_status input = PAID
             then sendConfirmations c (includeParticipants w originalPayment)
             else (\<lambda>w. w))
              (w\<lparr>swishPayments :=
                   swishPayments w @ [callbackPayment w now input originalPayment]\<rparr>),
            Inr 200)"
  using assms
  by (simp add: swishPaymentCallback_def Let_def includeParticipants_append_payment
        callbackPayment_linked)
    (simp add: callbackPayment_def)

lemma sendConfirmations_tables:
  "events (sendConfirmations c ps w) = events w"
  "buses (sendConfirmations c ps w) = buses w"
  "participants (sendConfirmations c ps w) = participants w"
  "swishPayments (sendConfirmations c ps w) = swishPayments w"
  "swishRefunds (sendConfirmations c ps w) = swishRefunds w"
  "sentConfirmations (sendConfirmations c ps w) = sentConfirmations w @ ps"
  by (simp_all add: sendConfirmations_def Let_def)


lemmas callback_defs =
  swishPaymentCallback_def callbackPayment_def sendConfirmations_def includeParticipants_def
  Let_def

lemma paid_world_eq:
  "paid_world =
     signed_world
       \<lparr>swishPayments := swishPayments signed_world @
          [\<lparr>pay_id = 1, pay_paymentId = ''AB12'', pay_payerAlias = ''46700000001'',
            pay_payeeAlias = ''1231181189'', pay_amount = 80,
            pay_message = ''GAIS-borta 12 maj. 2 resen'' @ [CHR 0xE4] @ ''rer'',
            pay_paymentReference = Some ''1E2FC1'',
            pay_paymentRequestUrl = ''https://gw.test/paymentrequests/AB12'',
            pay_createdAt = 6, pay_updatedAt = 9, pay_status = PAID,
            pay_errorCode = None, pay_errorMessage = None, pay_participants = [0, 1]\<rparr>],
        sentConfirmations := participants signed_world\<rparr>"
  by (simp add: paid_world_def signed_world_eq paid_callback_def free_world_def demo_world_def
        demo_collaborators_def callback_defs)


text \<open>
  C6.  A callback for a known payment id always answers with the acknowledgment
  \<^verbatim>\<open>{status: 200}\<close>, whatever the mail service does.  When the persisted row is PAID, a
  confirmation is handed to the mail service for every participant linked to that
  row; a rejected send adds one line to the error log and nothing else.  For any other
  status no confirmation is sent.
\<close>

theorem payment_callback_always_acknowledges:
  "find (\<lambda>p. pay_paymentId p = cb_id input) (swishPayments w) = Some originalPayment \<longrightarrow>
     snd (swishPaymentCallback c now input w) = Inr 200 \<and>
     (cb_status input = PAID \<longrightarrow>
        sentConfirmations (fst (swishPaymentCallback c now input w))
          = sentConfirmations w @ includeParticipants w originalPayment \<and>
        includeParticipants (fst (swishPaymentCallback c now input w))
            (last (swishPayments (fst (swishPaymentCallback c now input w))))
          = includeParticipants w originalPayment \<and>
        errorLog (fst (swishPaymentCallback c now input w))
          = (if list_ex (sendEmailFails c) (includeParticipants w originalPayment)
             then errorLog w @ [''Error sending confirmation email'']
             else errorLog w)) \<and>
     (cb_status input \<noteq> PAID \<longrightarrow>
        sentConfirmations (fst (swishPaymentCallback c now input w)) = sentConfirmations w \<and>
        errorLog (fst (swishPaymentCallback c now input w)) = errorLog w)"
proof
  assume known:
    "find (\<lambda>p. pay_paymentId p = cb_id input) (swishPayments w) = Some originalPayment"
  let ?w' = "fst (swishPaymentCallback c now input w)"
  let ?linked = "includeParticipants w originalPayment"
  have ack: "snd (swishPaymentCallback c now input w) = Inr 200"
    by (simp add: swishPaymentCallback_known [OF known])
  have paid: "sentConfirmations ?w' = sentConfirmations w @ ?linked \<and>
        includeParticipants ?w' (last (swishPayments ?w')) = ?linked \<and>
        errorLog ?w' = (if list_ex (sendEmailFails c) ?linked
                        then errorLog w @ [''Error sending confirmation email'']
                        else errorLog w)"
    if "cb_status input = PAID"
    using that callbackPayment_linked [of w now input originalPayment]
    by (simp add: swishPaymentCallback_known [OF known] sendConfirmations_def Let_def
          includeParticipants_def)
  have other: "sentConfirmations ?w' = sentConfirmations w \<and> errorLog ?w' = errorLog w"
    if "cb_status input \<noteq> PAID"
    using that by (simp add: swishPaymentCallback_known [OF known])
  from ack paid other
  show "snd (swishPaymentCallback c now input w) = Inr 200 \<and>
     (cb_status input = PAID \<longrightarrow>
        sentConfirmations ?w' = sentConfirmations w @ ?linked \<and>
        includeParticipants ?w' (last (swishPayments ?w')) = ?linked \<and>
        errorLog ?w' = (if list_ex (sendEmailFails c) ?linked
                        then errorLog w @ [''Error sending confirmation email'']
                        else errorLog w)) \<and>
     (cb_status input \<noteq> PAID \<longrightarrow>
        sentConfirmations ?w' = sentConfirmations w \<and> errorLog ?w' = errorLog w)"
    by blast
qed

text \<open>
  With a mail service that rejects every send, the PAID report for the sample payment
  is still acknowledged; both confirmations were attempted and the failure is logged.
\<close>

theorem payment_callback_always_acknowledges_witness:
  "find (\<lambda>p. pay_paymentId p = cb_id paid_callback) (swishPayments signed_world)
     = Some (hd (swishPayments signed_world)) \<and>
   cb_status paid_callback = PAID \<and>
   list_ex (sendEmailFails mail_down)
     (includeParticipants signed_world (hd (swishPayments signed_world))) \<and>
   snd (swishPaymentCallback mail_down 9 paid_callback signed_world) = Inr 200 \<and>
   sentConfirmations (fst (swishPaymentCallback mail_down 9 paid_callback signed_world))
     = participants signed_world \<and>
   errorLog (fst (swishPaymentCallback mail_down 9 paid_callback signed_world))
     = [''Error sending confirmation email'']"
proof -
  have known: "find (\<lambda>p. pay_paymentId p = cb_id paid_callback) (swishPayments signed_world)
                 = Some (hd (swishPayments signed_world))"
    by (simp add: signed_world_eq paid_callback_def)
  have paid: "cb_status paid_callback = PAID"
    by (simp add: paid_callback_def)
  have linked: "includeParticipants signed_world (hd (swishPayments signed_world))
                  = participants signed_world"
    by (simp add: signed_world_eq includeParticipants_def)
  have fails: "list_ex (sendEmailFails mail_down)
                 (includeParticipants signed_world (hd (swishPayments signed_world)))"
    by (simp add: linked) (simp add: signed_world_eq mail_down_def)
  have empty: "sentConfirmations signed_world = []" "errorLog signed_world = []"
    by (simp_all add: signed_world_eq free_world_def demo_world_def)
  from payment_callback_always_acknowledges
         [of paid_callback signed_world "hd (swishPayments signed_world)" mail_down 9]
       known paid fails
  have "snd (swishPaymentCallback mail_down 9 paid_callback signed_world) = Inr 200"
    "sentConfirmations (fst (swishPaymentCallback mail_down 9 paid_callback signed_world))
       = participants signed_world"
    "errorLog (fst (swishPaymentCallback mail_down 9 paid_callback signed_world))
       = [''Error sending confirmation email'']"
    by (simp_all add: linked empty)
  with known paid fails show ?thesis by blast
qed

lemma find_append_found:
  "find P xs = Some x \<Longrightarrow> find P (xs @ ys) = Some x"
  by (induction xs) (auto split: if_splits)

lemma in_latestRows:
  "r \<in> set (latestRows rows) \<longleftrightarrow>
     r \<in> set rows \<and> (\<forall>r' \<in> set rows. pay_createdAt r' \<le> pay_createdAt r)"
  by (auto simp: latestRows_def list_all_iff)

lemma latestRows_repeated_row:
  assumes "r1 \<in> set rows" "pay_createdAt r2 = pay_createdAt r1" "pay_status r2 = pay_status r1"
  shows "pay_status ` set (latestRows (rows @ [r2])) = pay_status ` set (latestRows rows)"
proof
  show "pay_status ` set (latestRows (rows @ [r2])) \<subseteq> pay_status ` set (latestRows rows)"
  proof
    fix s assume "s \<in> pay_status ` set (latestRows (rows @ [r2]))"
    then obtain r where r: "r \<in> set (latestRows (rows @ [r2]))" "pay_status r = s"
      by auto
    from r(1) have mem: "r = r2 \<or> r \<in> set rows"
      and top: "\<forall>r' \<in> set rows. pay_createdAt r' \<le> pay_createdAt r"
      by (auto simp: in_latestRows)
    show "s \<in> pay_status ` set (latestRows rows)"
    proof (cases "r \<in> set rows")
      case True
      with top have "r \<in> set (latestRows rows)" by (simp add: in_latestRows)
      with r(2) show ?thesis by force
    next
      case False
      with mem have "r = r2" by simp
      with top assms have "r1 \<in> set (latestRows rows)"
        by (simp add: in_latestRows)
      moreover from \<open>r = r2\<close> r(2) assms have "pay_status r1 = s" by simp
      ultimately show ?thesis by force
    qed
  qed
next
  show "pay_status ` set (latestRows rows) \<subseteq> pay_status ` set (latestRows (rows @ [r2]))"
  proof
    fix s assume "s \<in> pay_status ` set (latestRows rows)"
    then obtain r where r: "r \<in> set (latestRows rows)" "pay_status r = s"
      by auto
    from r(1) have mem: "r \<in> set rows"
      and top: "\<forall>r' \<in> set rows. pay_createdAt r' \<le> pay_createdAt r"
      by (simp_all add: in_latestRows)
    from top assms have "pay_createdAt r2 \<le> pay_createdAt r" by auto
    with mem top have "r \<in> set (latestRows (rows @ [r2]))"
      by (simp add: in_latestRows)
    with r(2) show "s \<in> pay_status ` set (latestRows (rows @ [r2]))" by force
  qed
qed


lemma swishPaymentCallback_unknown:
  "find (\<lambda>p. pay_paymentId p = cb_id input) (swishPayments w) = None \<Longrightarrow>
   swishPaymentCallback c now input w =
     (w, Inl (TRPCError BAD_REQUEST (Some ''Payment not found'')))"
  by (simp add: swishPaymentCallback_def)

lemma swishPaymentCallback_rows:
  "find (\<lambda>p. pay_paymentId p = cb_id input) (swishPayments w) = Some originalPayment \<Longrightarrow>
   swishPayments (fst (swishPaymentCallback c now input w))
     = swishPayments w @ [callbackPayment w now input originalPayment]"
  by (simp add: swishPaymentCallback_known sendConfirmations_tables)

lemma payment_callback_twice_rows:
  assumes known:
    "find (\<lambda>p. pay_paymentId p = cb_id input) (swishPayments w) = Some originalPayment"
  shows "swishPayments (fst (swishPaymentCallback c now input w))
           = swishPayments w @ [callbackPayment w now input originalPayment]"
    and "swishPayments
           (fst (swishPaymentCallback c' now' input (fst (swishPaymentCallback c now input w))))
           = swishPayments (fst (swishPaymentCallback c now input w))
               @ [callbackPayment (fst (swishPaymentCallback c now input w)) now' input
                    originalPayment]"
proof -
  let ?w1 = "fst (swishPaymentCallback c now input w)"
  show one: "swishPayments ?w1 = swishPayments w @ [callbackPayment w now input originalPayment]"
    by (rule swishPaymentCallback_rows [OF known])
  from find_append_found [OF known]
  have "find (\<lambda>p. pay_paymentId p = cb_id input) (swishPayments ?w1) = Some originalPayment"
    by (simp add: one)
  then show "swishPayments (fst (swishPaymentCallback c' now' input ?w1))
               = swishPayments ?w1 @ [callbackPayment ?w1 now' input originalPayment]"
    by (rule swishPaymentCallback_rows)
qed

lemma distinct_ids_filter:
  "distinct (map p_id ps) \<Longrightarrow> distinct (map p_id (filter P ps))"
  by (induction ps) auto

text \<open>
  C7.  Processing one payload a second time (at another instant, the mail service
  behaving in any way) leaves the current status of every payment id as it was after
  the first processing: both the status of the row created last, and the statuses of
  the rows with the greatest \<^verbatim>\<open>createdAt\<close>.  One invocation hands over at most one
  confirmation per participant: when the participant ids of the store are distinct,
  the confirmations it adds have distinct participant ids, and all of them belong to
  participants linked to the payment that was found.
\<close>

theorem payment_callback_redelivery:
  "currentStatus (fst (swishPaymentCallback c' now' input (fst (swishPaymentCallback c now input w)))) pid
     = currentStatus (fst (swishPaymentCallback c now input w)) pid \<and>
   latestStatuses (fst (swishPaymentCallback c' now' input (fst (swishPaymentCallback c now input w)))) pid
     = latestStatuses (fst (swishPaymentCallback c now input w)) pid \<and>
   (distinct (map p_id (participants w)) \<longrightarrow>
      (\<exists>sends.
         sentConfirmations (fst (swishPaymentCallback c now input w))
           = sentConfirmations w @ sends \<and>
         distinct (map p_id sends) \<and>
         (\<forall>originalPayment.
            find (\<lambda>p. pay_paymentId p = cb_id input) (swishPayments w) = Some originalPayment
            \<longrightarrow> set sends \<subseteq> set (includeParticipants w originalPayment))))"
proof -
  let ?w1 = "fst (swishPaymentCallback c now input w)"
  let ?w2 = "fst (swishPaymentCallback c' now' input ?w1)"
  have status: "currentStatus ?w2 pid = currentStatus ?w1 pid \<and>
                latestStatuses ?w2 pid = latestStatuses ?w1 pid"
  proof (cases "find (\<lambda>p. pay_paymentId p = cb_id input) (swishPayments w)")
    case None
    then show ?thesis by (simp add: swishPaymentCallback_unknown)
  next
    case (Some originalPayment)
    let ?n1 = "callbackPayment w now input originalPayment"
    let ?n2 = "callbackPayment ?w1 now' input originalPayment"
    from payment_callback_twice_rows [OF Some] have
      r1: "swishPayments ?w1 = swishPayments w @ [?n1]" and
      r2: "swishPayments ?w2 = swishPayments ?w1 @ [?n2]"
      by simp_all
    have same: "pay_paymentId ?n1 = cb_id input" "pay_paymentId ?n2 = cb_id input"
      "pay_status ?n2 = pay_status ?n1" "pay_createdAt ?n2 = pay_createdAt ?n1"
      "pay_status ?n1 = cb_status input"
      by (simp_all add: callbackPayment_def)
    show ?thesis
    proof (cases "pid = cb_id input")
      case False
      with same show ?thesis
        by (simp add: currentStatus_def latestStatuses_def r1 r2)
    next
      case True
      let ?rows = "filter (\<lambda>p. pay_paymentId p = pid) (swishPayments ?w1)"
      have in1: "?n1 \<in> set ?rows"
        using True same by (simp add: r1)
      have f2: "filter (\<lambda>p. pay_paymentId p = pid) (swishPayments ?w2) = ?rows @ [?n2]"
        using True same by (simp add: r2)
      have cur: "currentStatus ?w2 pid = currentStatus ?w1 pid"
        using True same by (simp add: currentStatus_def mostRecent_def r1 r2)
      from latestRows_repeated_row [OF in1 same(4) same(3)]
      have "latestStatuses ?w2 pid = latestStatuses ?w1 pid"
        by (simp add: latestStatuses_def f2)
      with cur show ?thesis by simp
    qed
  qed
  have sends: "\<exists>sends.
         sentConfirmations ?w1 = sentConfirmations w @ sends \<and>
         distinct (map p_id sends) \<and>
         (\<forall>originalPayment.
            find (\<lambda>p. pay_paymentId p = cb_id input) (swishPayments w) = Some originalPayment
            \<longrightarrow> set sends \<subseteq> set (includeParticipants w originalPayment))"
    if ids: "distinct (map p_id (participants w))"
  proof (cases "find (\<lambda>p. pay_paymentId p = cb_id input) (swishPayments w)")
    case None
    then show ?thesis
      by (intro exI [of _ "[]"]) (simp add: swishPaymentCallback_unknown)
  next
    case (Some originalPayment)
    show ?thesis
    proof (cases "cb_status input = PAID")
      case True
      from ids have "distinct (map p_id (includeParticipants w originalPayment))"
        unfolding includeParticipants_def by (rule distinct_ids_filter)
      with True Some show ?thesis
        by (intro exI [of _ "includeParticipants w originalPayment"])
          (simp add: swishPaymentCallback_known sendConfirmations_tables)
    next
      case False
      with Some show ?thesis
        by (intro exI [of _ "[]"]) (simp add: swishPaymentCallback_known)
    qed
  qed
  from status sends show ?thesis by blast
qed

text \<open>
  The PAID report for the sample payment, delivered at the instants 9 and 15: the
  current status is PAID after the first delivery and after the second, and the first
  delivery sent one confirmation to each of the two participants.
\<close>

theorem payment_callback_redelivery_witness:
  "distinct (map p_id (participants signed_world)) \<and>
   currentStatus paid_world ''AB12'' = Some PAID \<and>
   currentStatus (fst (swishPaymentCallback demo_collaborators 15 paid_callback paid_world)) ''AB12''
     = Some PAID \<and>
   latestStatuses paid_world ''AB12'' = {PAID} \<and>
   latestStatuses (fst (swishPaymentCallback demo_collaborators 15 paid_callback paid_world)) ''AB12''
     = {PAID} \<and>
   map p_id (sentConfirmations signed_world) = [] \<and>
   map p_id (sentConfirmations paid_world) = [0, 1]"
proof -
  have ids: "distinct (map p_id (participants signed_world))"
    by (simp add: signed_world_eq)
  have once: "currentStatus paid_world ''AB12'' = Some PAID"
    "latestStatuses paid_world ''AB12'' = {PAID}"
    by (simp_all add: paid_world_eq signed_world_eq currentStatus_def mostRecent_def
          latestStatuses_def latestRows_def)
  have sent: "map p_id (sentConfirmations signed_world) = []"
    "map p_id (sentConfirmations paid_world) = [0, 1]"
    by (simp_all add: paid_world_eq signed_world_eq free_world_def demo_world_def)
  from payment_callback_redelivery
         [of demo_collaborators 15 paid_callback demo_collaborators 9 signed_world "''AB12''"]
  have twice:
    "currentStatus (fst (swishPaymentCallback demo_collaborators 15 paid_callback paid_world))
         ''AB12'' = currentStatus paid_world ''AB12''"
    "latestStatuses (fst (swishPaymentCallback demo_collaborators 15 paid_callback paid_world))
         ''AB12'' = latestStatuses paid_world ''AB12''"
    unfolding paid_world_def by blast+
  from ids once sent twice show ?thesis by simp
qed

section \<open>The cancellation window\<close>

lemmas date_defs =
  subDays_def LocalTime_def UTC_def isWithinInterval_def isBefore_def

lemmas cancel_defs =
  cancelBooking_def includeEvent_def includePayments_def includeRefunds_def refundMessage_def
  refundRequestFailed_def date_defs first_word_def replaceAll_slash_def last_segment_def Let_def

lemma subDays_fixed_offset:
  assumes "tz d True = off" and "tz (d + off - n * 86400000) False = off"
  shows "subDays tz d n = d - n * 86400000"
  using assms by (simp add: subDays_def LocalTime_def UTC_def)

lemma paid_world_tables:
  "events paid_world = [demo_event\<lparr>youthMemberPrice := 0\<rparr>]"
  "participants paid_world = participants signed_world"
  "swishRefunds paid_world = []"
  "errorLog paid_world = []"
  by (simp_all add: paid_world_eq signed_world_eq free_world_def demo_world_def)

lemma cancelBooking_rejects_in_window:
  assumes "find (\<lambda>p. p_cancellationToken p = token) (participants w) = Some participant"
    and "includeEvent w participant = Some event"
    and "subDays (env_LocalTZA c) (ev_date event) 2 \<le> today" and "today \<le> ev_date event"
  shows "cancelBooking c today token w =
           (w, Inl (TRPCError BAD_REQUEST (Some ''Du kan inte avboka inom 48h'')))"
  using assms by (simp add: cancelBooking_def isWithinInterval_def)

lemma cancelBooking_outside_window:
  assumes "find (\<lambda>p. p_cancellationToken p = token) (participants w) = Some participant"
    and "includeEvent w participant = Some event"
    and "today < subDays (env_LocalTZA c) (ev_date event) 2 \<or> ev_date event < today"
    and "find (\<lambda>p. pay_status p = PAID) (includePayments w participant) = Some swishPayment"
    and "p_payAmount participant \<noteq> 0"
    and "createRefundRequest c
           \<lparr>rd_originalPaymentReference = pay_paymentId swishPayment,
            rd_callbackUrl = env_API_URL c @ ''/payment/swishCallback'',
            rd_payerAlias = ''1234679304'',
            rd_amount = p_payAmount participant,
            rd_currency = ''SEK'',
            rd_message = refundMessage event participant\<rparr> = Some refundRequestUrl"
  shows "snd (cancelBooking c today token w) = Inr (last_segment refundRequestUrl)"
    and "\<exists>refundIntent.
           swishRefunds (fst (cancelBooking c today token w)) = swishRefunds w @ [refundIntent] \<and>
           ref_status refundIntent = REFUND_CREATED \<and>
           ref_amount refundIntent = p_payAmount participant \<and>
           ref_participantId refundIntent = p_id participant"
  using assms by (auto simp: cancelBooking_def isWithinInterval_def Let_def)

lemmas world_evals =
  paid_world_eq signed_world_eq free_world_def demo_world_def demo_event_def demo_bus_def
  demo_collaborators_def

text \<open>
  C1.  The cancellation window on the sample booking (a PAID payment of 80, departure
  at the instant 1000000000, the server on UTC, so the cutoff is 172800000 earlier).
  One second before the cutoff the cancellation is accepted and returns the refund id;
  at the cutoff and at the departure it is rejected with ``Du kan inte avboka inom
  48h''.  One millisecond after the departure it is accepted again: the interval test
  ends at the departure, so a refund of 80 is requested and stored although the trip
  has left.
\<close>

theorem cancelBooking_after_departure_refunds:
  "map ev_date (events paid_world) = [1000000000] \<and>
   snd (cancelBooking demo_collaborators (1000000000 - 172800000 - 1000) ''tok0'' paid_world)
     = Inr ''RF77'' \<and>
   cancelBooking demo_collaborators (1000000000 - 172800000) ''tok0'' paid_world
     = (paid_world, Inl (TRPCError BAD_REQUEST (Some ''Du kan inte avboka inom 48h''))) \<and>
   cancelBooking demo_collaborators 1000000000 ''tok0'' paid_world
     = (paid_world, Inl (TRPCError BAD_REQUEST (Some ''Du kan inte avboka inom 48h''))) \<and>
   snd (cancelBooking demo_collaborators (1000000000 + 1) ''tok0'' paid_world) = Inr ''RF77'' \<and>
   swishRefunds (fst (cancelBooking demo_collaborators (1000000000 + 1) ''tok0'' paid_world))
     = [\<lparr>ref_id = 0, ref_refundId = ''RF77'', ref_paymentId = 1,
         ref_paymentReference = Some ''1E2FC1'', ref_payerAlias = ''1234679304'',
         ref_payeeAlias = ''46700000001'', ref_amount = 80,
         ref_message = [CHR 0xC5] @ ''terbetalning: GAIS-borta, ann'',
         ref_status = REFUND_CREATED, ref_participantId = 0,
         ref_createdAt = 1000000001, ref_updatedAt = 1000000001\<rparr>]"
  by (simp add: world_evals cancel_defs)

text \<open>
  C10.  A participant whose stored pay amount is 0 never gets a refund from
  \<^verbatim>\<open>cancelBooking\<close>: at any instant, with any gateway and in any time zone the result is
  an error and the store is unchanged.  Outside the window from the cutoff to the
  departure the error is ``Payment not found'', whether or not a PAID payment exists,
  because the test \<^verbatim>\<open>!payAmount\<close> holds of 0.
\<close>

theorem cancelBooking_zero_amount:
  "find (\<lambda>p. p_cancellationToken p = token) (participants w) = Some participant \<and>
   p_payAmount participant = 0 \<longrightarrow>
     (\<exists>e. cancelBooking c today token w = (w, Inl e)) \<and>
     (\<forall>event. includeEvent w participant = Some event \<and>
        \<not> isWithinInterval today (subDays (env_LocalTZA c) (ev_date event) 2) (ev_date event)
        \<longrightarrow>
          cancelBooking c today token w =
            (w, Inl (TRPCError BAD_REQUEST (Some ''Payment not found''))))"
  by (auto simp: cancelBooking_def Let_def split: option.splits)

text \<open>
  The young member of the sample signup travels for free, has a PAID payment, and asks
  long before the cutoff.
\<close>

theorem cancelBooking_zero_amount_witness:
  "find (\<lambda>p. p_cancellationToken p = ''tok1'') (participants paid_world)
     = Some (participants paid_world ! 1) \<and>
   p_payAmount (participants paid_world ! 1) = 0 \<and>
   includeEvent paid_world (participants paid_world ! 1)
     = Some (demo_event\<lparr>youthMemberPrice := 0\<rparr>) \<and>
   map pay_status (includePayments paid_world (participants paid_world ! 1)) = [CREATED, PAID] \<and>
   isWithinInterval 10
       (subDays (env_LocalTZA demo_collaborators)
          (ev_date (demo_event\<lparr>youthMemberPrice := 0\<rparr>)) 2)
       (ev_date (demo_event\<lparr>youthMemberPrice := 0\<rparr>)) = False \<and>
   cancelBooking demo_collaborators 10 ''tok1'' paid_world
     = (paid_world, Inl (TRPCError BAD_REQUEST (Some ''Payment not found'')))"
proof -
  let ?cy = "participants paid_world ! 1"
  let ?ev = "demo_event\<lparr>youthMemberPrice := 0\<rparr>"
  have found: "find (\<lambda>p. p_cancellationToken p = ''tok1'') (participants paid_world) = Some ?cy"
    and zero: "p_payAmount ?cy = 0"
    and ev: "includeEvent paid_world ?cy = Some ?ev"
    and paid: "map pay_status (includePayments paid_world ?cy) = [CREATED, PAID]"
    by (simp_all add: world_evals includeEvent_def includePayments_def)
  have open':
    "isWithinInterval 10 (subDays (env_LocalTZA demo_collaborators) (ev_date ?ev) 2)
       (ev_date ?ev) = False"
    by (simp add: demo_event_def demo_collaborators_def date_defs)
  from cancelBooking_zero_amount [of "''tok1''" paid_world ?cy demo_collaborators 10]
    found zero ev open'
  have "cancelBooking demo_collaborators 10 ''tok1'' paid_world
          = (paid_world, Inl (TRPCError BAD_REQUEST (Some ''Payment not found'')))"
    by blast
  with found zero ev paid open' show ?thesis by blast
qed

section \<open>The cancellable status\<close>







section \<open>Booked seats\<close>

lemmas capacity_defs =
  getAwayGames_def getAwayGame_def busesWithPaidPassengers_def paidPassenger_def passengers_def
  includePayments_def includeRefunds_def subHours_def Let_def

lemma declined_world_eq:
  "declined_world =
     paid_world
       \<lparr>swishPayments := swishPayments paid_world @
          [\<lparr>pay_id = 2, pay_paymentId = ''AB12'', pay_payerAlias = ''46700000001'',
            pay_payeeAlias = ''1231181189'', pay_amount = 80,
            pay_message = ''GAIS-borta 12 maj. 2 resen'' @ [CHR 0xE4] @ ''rer'',
            pay_paymentReference = Some ''1E2FC1'',
            pay_paymentRequestUrl = ''https://gw.test/paymentrequests/AB12'',
            pay_createdAt = 6, pay_updatedAt = 12, pay_status = DECLINED,
            pay_errorCode = None, pay_errorMessage = None, pay_participants = [0, 1]\<rparr>]\<rparr>"
  by (simp add: declined_world_def world_evals paid_callback_def callback_defs)

text \<open>
  C2 as stated fails when the most recent payment row is not the PAID one.  After the
  PAID report for the sample payment, a DECLINED report for the same payment id is
  appended.  The read model still counts both participants, since each has some PAID
  payment and no PAID refund; counting by the most recent row gives none.
\<close>

theorem capacity_most_recent_counterexample:
  "map pay_status (swishPayments declined_world) = [CREATED, PAID, DECLINED] \<and>
   map pay_createdAt (swishPayments declined_world) = [5, 6, 6] \<and>
   swishRefunds declined_world = [] \<and>
   buses declined_world = [demo_bus] \<and>
   map bookedSeats (getAwayGames 0 declined_world) = [2] \<and>
   map (map count_passengers \<circ> ag_buses) (getAwayGames 0 declined_world) = [[2]] \<and>
   map_sum id (map count_passengers \<circ> snd) (getAwayGame ''e1'' declined_world) = Inr [2] \<and>
   spec_bookedSeats declined_world demo_bus = 0"
  by (simp add: declined_world_eq world_evals capacity_defs spec_bookedSeats_def spec_booked_def
        mostRecent_def)

lemma paidPassenger_iff:
  "paidPassenger w p \<longleftrightarrow>
     (\<exists>pay \<in> set (swishPayments w). p_id p \<in> set (pay_participants pay) \<and> pay_status pay = PAID) \<and>
     (\<forall>r \<in> set (swishRefunds w). ref_participantId r = p_id p \<longrightarrow> ref_status r \<noteq> REFUND_PAID)"
  by (auto simp: paidPassenger_def includePayments_def includeRefunds_def list_ex_iff)

text \<open>
  C2, amended.  \<^verbatim>\<open>getAwayGames\<close> lists the events that leave no earlier than eight hours
  ago; for each, \<open>bookedSeats\<close> and \<open>maxSeats\<close> are the sums over the event's buses
  of the per-bus counts and of the seats, and \<^verbatim>\<open>getAwayGame\<close> returns the same per-bus
  counts.  The count of a bus is the number of its participants that have at least
  one PAID payment request and no PAID refund request, wherever those rows stand in
  the history.
\<close>

theorem capacity_read_model:
  "map ag_event (getAwayGames now w) = filter (\<lambda>e. now - 28800000 \<le> ev_date e) (events w) \<and>
   (\<forall>g \<in> set (getAwayGames now w).
      ag_buses g = busesWithPaidPassengers w (ag_event g) \<and>
      bookedSeats g = (\<Sum>b\<leftarrow>ag_buses g. int (count_passengers b)) \<and>
      maxSeats g = (\<Sum>b\<leftarrow>ag_buses g. seats (bc_bus b))) \<and>
   (getAwayGame ident w = Inr (ev, bs) \<longrightarrow> bs = busesWithPaidPassengers w ev) \<and>
   map bc_bus (busesWithPaidPassengers w event)
     = filter (\<lambda>b. bus_eventId b = ev_id event) (buses w) \<and>
   (\<forall>bc \<in> set (busesWithPaidPassengers w event).
      count_passengers bc =
        length (filter
          (\<lambda>p. p_busId p = bus_id (bc_bus bc) \<and>
               (\<exists>pay \<in> set (swishPayments w).
                  p_id p \<in> set (pay_participants pay) \<and> pay_status pay = PAID) \<and>
               (\<forall>r \<in> set (swishRefunds w).
                  ref_participantId r = p_id p \<longrightarrow> ref_status r \<noteq> REFUND_PAID))
          (participants w)))"
proof -
  have games: "map ag_event (getAwayGames now w)
                 = filter (\<lambda>e. now - 28800000 \<le> ev_date e) (events w)"
    by (simp add: getAwayGames_def subHours_def Let_def comp_def)
  have sums: "\<forall>g \<in> set (getAwayGames now w).
      ag_buses g = busesWithPaidPassengers w (ag_event g) \<and>
      bookedSeats g = (\<Sum>b\<leftarrow>ag_buses g. int (count_passengers b)) \<and>
      maxSeats g = (\<Sum>b\<leftarrow>ag_buses g. seats (bc_bus b))"
    by (auto simp: getAwayGames_def Let_def foldl_add_sum_list)
  have one: "getAwayGame ident w = Inr (ev, bs) \<longrightarrow> bs = busesWithPaidPassengers w ev"
    by (auto simp: getAwayGame_def split: option.splits)
  have which: "map bc_bus (busesWithPaidPassengers w event)
                 = filter (\<lambda>b. bus_eventId b = ev_id event) (buses w)"
    by (simp add: busesWithPaidPassengers_def comp_def)
  have counts: "\<forall>bc \<in> set (busesWithPaidPassengers w event).
      count_passengers bc =
        length (filter
          (\<lambda>p. p_busId p = bus_id (bc_bus bc) \<and>
               (\<exists>pay \<in> set (swishPayments w).
                  p_id p \<in> set (pay_participants pay) \<and> pay_status pay = PAID) \<and>
               (\<forall>r \<in> set (swishRefunds w).
                  ref_participantId r = p_id p \<longrightarrow> ref_status r \<noteq> REFUND_PAID))
          (participants w))"
    by (auto simp: busesWithPaidPassengers_def passengers_def paidPassenger_iff conj_commute
          intro!: arg_cong [where f = length] filter_cong)
  from games sums one which counts show ?thesis by blast
qed

lemma coach_world_games:
  "getAwayGames 0 coach_world =
     [\<lparr>ag_event = demo_event,
       ag_buses = [\<lparr>bc_bus = demo_bus, count_passengers = 7\<rparr>],
       maxSeats = 10, bookedSeats = 7\<rparr>]"
  by (simp add: coach_world_def demo_world_def demo_event_def demo_bus_def passenger_def
        group_payment_def refund_row_def capacity_defs)

text \<open>
  A bus of 10 seats with 9 participants, all PAID, 2 of them refunded: 7 booked seats.
\<close>

theorem capacity_read_model_witness:
  "seats demo_bus = 10 \<and>
   length (passengers coach_world demo_bus) = 9 \<and>
   map pay_status (swishPayments coach_world) = [CREATED, PAID] \<and>
   map (\<lambda>r. (ref_participantId r, ref_status r)) (swishRefunds coach_world)
     = [(7, REFUND_CREATED), (7, REFUND_PAID), (8, REFUND_CREATED), (8, REFUND_PAID)] \<and>
   map bookedSeats (getAwayGames 0 coach_world) = [7] \<and>
   map maxSeats (getAwayGames 0 coach_world) = [10] \<and>
   map count_passengers (busesWithPaidPassengers coach_world demo_event) = [7] \<and>
   getAwayGame ''e1'' coach_world
     = Inr (demo_event, [\<lparr>bc_bus = demo_bus, count_passengers = 7\<rparr>])"
proof -
  have given: "seats demo_bus = 10" "length (passengers coach_world demo_bus) = 9"
    "map pay_status (swishPayments coach_world) = [CREATED, PAID]"
    "map (\<lambda>r. (ref_participantId r, ref_status r)) (swishRefunds coach_world)
       = [(7, REFUND_CREATED), (7, REFUND_PAID), (8, REFUND_CREATED), (8, REFUND_PAID)]"
    by (simp_all add: coach_world_def demo_world_def demo_bus_def passenger_def passengers_def
          group_payment_def refund_row_def)
  have games: "map bookedSeats (getAwayGames 0 coach_world) = [7]"
    "map maxSeats (getAwayGames 0 coach_world) = [10]"
    by (simp_all add: coach_world_games)
  have "g \<in> set (getAwayGames 0 coach_world) \<Longrightarrow>
          ag_buses g = busesWithPaidPassengers coach_world (ag_event g)" for g
    using capacity_read_model [of 0 coach_world "''e1''" demo_event
            "[\<lparr>bc_bus = demo_bus, count_passengers = 7\<rparr>]" demo_event]
    by blast
  from this [of "hd (getAwayGames 0 coach_world)"]
  have eq: "busesWithPaidPassengers coach_world demo_event
              = [\<lparr>bc_bus = demo_bus, count_passengers = 7\<rparr>]"
    by (simp add: coach_world_games)
  then have buses: "map count_passengers (busesWithPaidPassengers coach_world demo_event) = [7]"
    by simp
  have found: "find (\<lambda>e. ev_id e = ''e1'') (events coach_world) = Some demo_event"
    by (simp add: coach_world_def demo_world_def demo_event_def)
  with eq have one: "getAwayGame ''e1'' coach_world
     = Inr (demo_event, [\<lparr>bc_bus = demo_bus, count_passengers = 7\<rparr>])"
    by (simp add: getAwayGame_def)
  from given games buses one show ?thesis by blast
qed

end
